theory Spec2Isabelle
  imports Main
begin

section \<open>Data model\<close>

text \<open>
  The client-side session lifecycle of the front end: the axios interceptors and the
  \<^verbatim>\<open>AuthProvider\<close> of \<^verbatim>\<open>contexts/AuthContext\<close>, the OAuth callback page and the route
  guards of \<^verbatim>\<open>App.js\<close>.

  JavaScript tests values for truthiness: \<^verbatim>\<open>if (token)\<close> fails for \<^verbatim>\<open>null\<close> and for the
  empty string alike. A nullable string is a \<open>string option\<close>, with \<open>None\<close> for \<^verbatim>\<open>null\<close>.
\<close>

definition truthy :: "string option \<Rightarrow> bool" where
  "truthy v = (case v of None \<Rightarrow> False | Some s \<Rightarrow> s \<noteq> [])"

text \<open>\<^verbatim>\<open>localStorage\<close>: a map from keys to strings; \<^verbatim>\<open>getItem\<close> is \<^verbatim>\<open>null\<close> on a missing key.\<close>

type_synonym storage = "string \<rightharpoonup> string"

definition getItem :: "storage \<Rightarrow> string \<Rightarrow> string option" where
  "getItem st k = st k"

definition setItem :: "storage \<Rightarrow> string \<Rightarrow> string \<Rightarrow> storage" where
  "setItem st k v = st(k \<mapsto> v)"

definition removeItem :: "storage \<Rightarrow> string \<Rightarrow> storage" where
  "removeItem st k = st(k := None)"

text \<open>
  An axios request configuration. \<open>retry\<close> is the \<^verbatim>\<open>_retry\<close> marker, which is
  \<^verbatim>\<open>undefined\<close> (here \<open>False\<close>) on every configuration that axios builds for a new call.
\<close>

datatype http_method = GET | POST | PUT | PATCH | DELETE

text \<open>A request body: none, or the fields of the object that is sent as JSON.\<close>

datatype body = NoBody | Fields "(string \<times> string) list"

record config =
  req_method :: http_method
  url :: string
  data :: body
  headers :: "string \<rightharpoonup> string"
  retry :: bool

text \<open>
  How an HTTP call settles: \<open>Fulfilled d\<close> is a response with a 2xx status and body \<open>d\<close>;
  \<open>Rejected n det\<close> is a response with status \<open>n\<close> outside 2xx whose body carries the
  optional \<^verbatim>\<open>detail\<close> message; \<open>NetworkError\<close> is a failure with no response at all.
\<close>

datatype 'a settled = Fulfilled 'a | Rejected nat "string option" | NetworkError

text \<open>The error object axios rejects with: \<^verbatim>\<open>error.config\<close> and the optional \<^verbatim>\<open>error.response\<close>.\<close>

record error_response =
  status :: nat
  detail :: "string option"

record axios_error =
  err_config :: config
  response :: "error_response option"

record user_data =
  uid :: string
  email :: string

text \<open>The body of a successful login or registration.\<close>

record auth_response =
  access_token :: string
  resp_user :: user_data

datatype toast = ToastSuccess string | ToastError string

datatype cached = CachedUser user_data | CachedOther string

text \<open>
  Everything the session code reads and writes: the browser's \<^verbatim>\<open>localStorage\<close>, the
  two state variables of \<^verbatim>\<open>AuthProvider\<close>, the react-query cache, and the effects on the
  outside in the order they were issued: assignments to \<^verbatim>\<open>window.location.href\<close>, calls of
  the router's \<^verbatim>\<open>navigate\<close>, toasts and console lines.
\<close>

record world =
  localStorage :: storage
  user :: "user_data option"
  isInitialized :: bool
  queryCache :: "string \<rightharpoonup> cached"
  href_log :: "string list"
  nav_log :: "string list"
  toasts :: "toast list"
  console :: "string list"

section \<open>The authorized request pipeline\<close>

text \<open>
  \<^verbatim>\<open>axios.interceptors.request.use\<close>, the fulfilled handler:
  \<^verbatim>\<open>
    const token = localStorage.getItem('accessToken');
    if (token) { config.headers.Authorization = `Bearer ${token}`; }
    return config;
  \<close>
\<close>

definition request_interceptor :: "storage \<Rightarrow> config \<Rightarrow> config" where
  "request_interceptor st cfg =
     (case getItem st ''accessToken'' of
        None \<Rightarrow> cfg
      | Some token \<Rightarrow>
          if token \<noteq> [] then cfg\<lparr>headers := (headers cfg)(''Authorization'' \<mapsto> ''Bearer '' @ token)\<rparr>
          else cfg)"

text \<open>
  \<^verbatim>\<open>axios.interceptors.response.use\<close>, the rejected handler:
  \<^verbatim>\<open>
    const originalRequest = error.config;
    if (error.response?.status === 401 && !originalRequest._retry) {
      originalRequest._retry = true;
      localStorage.removeItem('accessToken');
      localStorage.removeItem('refreshToken');
      window.location.href = '/auth/login';
      return Promise.reject(error);
    }
    return Promise.reject(error);
  \<close>
  Both branches reject, so the result is always \<open>Inl\<close> of the error object (whose
  configuration now carries the marker in the first branch). The fulfilled handler is the
  identity. The handler never calls \<^verbatim>\<open>setUser\<close>: it lives outside the component.
\<close>

definition response_rejected :: "world \<Rightarrow> axios_error \<Rightarrow> world \<times> (axios_error + 'a)" where
  "response_rejected w e =
     (if (case response e of None \<Rightarrow> False | Some r \<Rightarrow> status r = 401) \<and> \<not> retry (err_config e)
      then
        (w\<lparr>localStorage := removeItem (removeItem (localStorage w) ''accessToken'') ''refreshToken'',
           href_log := href_log w @ [''/auth/login'']\<rparr>,
         Inl (e\<lparr>err_config := (err_config e)\<lparr>retry := True\<rparr>\<rparr>))
      else (w, Inl e))"

text \<open>
  One call through axios (\<^verbatim>\<open>axios.get(url)\<close>, \<^verbatim>\<open>axios.post(url, data)\<close>, ...): a fresh
  configuration passes the request interceptor, the call settles as \<open>out\<close>, and a
  rejection passes the response interceptor. The promise's value is \<open>Inr\<close> of the body
  or \<open>Inl\<close> of the error.
\<close>

definition axios_request ::
  "world \<Rightarrow> http_method \<Rightarrow> string \<Rightarrow> body \<Rightarrow> 'a settled \<Rightarrow> world \<times> (axios_error + 'a)" where
  "axios_request w m u d out =
     (let cfg = request_interceptor (localStorage w)
                  \<lparr>req_method = m, url = u, data = d, headers = Map.empty, retry = False\<rparr>
      in case out of
           Fulfilled r \<Rightarrow> (w, Inr r)
         | Rejected n det \<Rightarrow>
             response_rejected w \<lparr>err_config = cfg, response = Some \<lparr>status = n, detail = det\<rparr>\<rparr>
         | NetworkError \<Rightarrow> response_rejected w \<lparr>err_config = cfg, response = None\<rparr>)"

section \<open>The session store\<close>

text \<open>The functions of \<^verbatim>\<open>authAPI\<close>.\<close>

definition authAPI_login ::
  "world \<Rightarrow> body \<Rightarrow> auth_response settled \<Rightarrow> world \<times> (axios_error + auth_response)" where
  "authAPI_login w credentials out = axios_request w POST ''/api/auth/login'' credentials out"

definition authAPI_register ::
  "world \<Rightarrow> body \<Rightarrow> auth_response settled \<Rightarrow> world \<times> (axios_error + auth_response)" where
  "authAPI_register w userData out = axios_request w POST ''/api/auth/register'' userData out"

definition authAPI_getCurrentUser ::
  "world \<Rightarrow> user_data settled \<Rightarrow> world \<times> (axios_error + user_data)" where
  "authAPI_getCurrentUser w out = axios_request w GET ''/api/auth/me'' NoBody out"

text \<open>
  \<^verbatim>\<open>authAPI.logout\<close> wraps the call in \<^verbatim>\<open>try { ... } catch (error) { console.log(...) }\<close>:
  it never rejects.
\<close>

definition authAPI_logout :: "world \<Rightarrow> unit settled \<Rightarrow> world \<times> (axios_error + unit)" where
  "authAPI_logout w out =
     (case axios_request w POST ''/api/auth/logout'' NoBody out of
        (w1, Inr _) \<Rightarrow> (w1, Inr ())
      | (w1, Inl e) \<Rightarrow> (w1\<lparr>console := console w1 @ [''Logout error:'']\<rparr>, Inr ()))"

definition authAPI_forgotPassword ::
  "world \<Rightarrow> string \<Rightarrow> unit settled \<Rightarrow> world \<times> (axios_error + unit)" where
  "authAPI_forgotPassword w mail out =
     axios_request w POST ''/api/auth/forgot-password'' (Fields [(''email'', mail)]) out"

definition authAPI_resetPassword ::
  "world \<Rightarrow> string \<Rightarrow> string \<Rightarrow> unit settled \<Rightarrow> world \<times> (axios_error + unit)" where
  "authAPI_resetPassword w token newPassword out =
     axios_request w POST ''/api/auth/reset-password''
       (Fields [(''token'', token), (''new_password'', newPassword)]) out"

text \<open>\<^verbatim>\<open>error.response?.data?.detail || fallback\<close>: an empty detail is falsy too.\<close>

definition error_message :: "axios_error \<Rightarrow> string \<Rightarrow> string" where
  "error_message e fallback =
     (case response e of
        None \<Rightarrow> fallback
      | Some r \<Rightarrow> (case detail r of None \<Rightarrow> fallback | Some d \<Rightarrow> if d \<noteq> [] then d else fallback))"

text \<open>
  The state \<^verbatim>\<open>AuthProvider\<close> starts in when the application is loaded on a browser whose
  storage is \<open>st\<close>: \<^verbatim>\<open>useState(null)\<close>, \<^verbatim>\<open>useState(false)\<close>, an empty query cache.
\<close>

definition mount :: "storage \<Rightarrow> world" where
  "mount st = \<lparr>localStorage = st, user = None, isInitialized = False, queryCache = Map.empty,
               href_log = [], nav_log = [], toasts = [], console = []\<rparr>"

text \<open>
  Session resolution at startup: the \<^verbatim>\<open>['currentUser']\<close> query, enabled by
  \<^verbatim>\<open>!!localStorage.getItem('accessToken')\<close> and run with \<^verbatim>\<open>retry: false\<close> (the first
  failure is final), with its \<^verbatim>\<open>onSuccess\<close> and \<^verbatim>\<open>onError\<close>, and
  the effect that marks the store initialized when there is no token. \<open>out\<close> is how the
  \<^verbatim>\<open>/api/auth/me\<close> call settles; it is not looked at when the query is disabled.
\<close>

definition initialize :: "world \<Rightarrow> user_data settled \<Rightarrow> world" where
  "initialize w out =
     (if truthy (getItem (localStorage w) ''accessToken'') then
        (case authAPI_getCurrentUser w out of
           (w1, Inr d) \<Rightarrow>
             w1\<lparr>user := Some d, isInitialized := True,
                queryCache := (queryCache w1)(''currentUser'' \<mapsto> CachedUser d)\<rparr>
         | (w1, Inl e) \<Rightarrow>
             w1\<lparr>console := console w1 @ [''Auth error:''],
                localStorage := removeItem (localStorage w1) ''accessToken'',
                user := None, isInitialized := True\<rparr>)
      else w\<lparr>isInitialized := True\<rparr>)"

text \<open>\<^verbatim>\<open>loginMutation\<close> through \<^verbatim>\<open>mutateAsync\<close>: the promise settles as the call did.\<close>

definition login ::
  "world \<Rightarrow> body \<Rightarrow> auth_response settled \<Rightarrow> world \<times> (axios_error + auth_response)" where
  "login w credentials out =
     (case authAPI_login w credentials out of
        (w1, Inr d) \<Rightarrow>
          (w1\<lparr>localStorage := setItem (localStorage w1) ''accessToken'' (access_token d),
              user := Some (resp_user d),
              queryCache := (queryCache w1)(''currentUser'' \<mapsto> CachedUser (resp_user d)),
              toasts := toasts w1 @ [ToastSuccess ''Welcome back!'']\<rparr>, Inr d)
      | (w1, Inl e) \<Rightarrow>
          (w1\<lparr>toasts := toasts w1 @ [ToastError (error_message e ''Login failed'')]\<rparr>, Inl e))"

definition register ::
  "world \<Rightarrow> body \<Rightarrow> auth_response settled \<Rightarrow> world \<times> (axios_error + auth_response)" where
  "register w userData out =
     (case authAPI_register w userData out of
        (w1, Inr d) \<Rightarrow>
          (w1\<lparr>localStorage := setItem (localStorage w1) ''accessToken'' (access_token d),
              user := Some (resp_user d),
              queryCache := (queryCache w1)(''currentUser'' \<mapsto> CachedUser (resp_user d)),
              toasts := toasts w1 @ [ToastSuccess ''Account created successfully!'']\<rparr>, Inr d)
      | (w1, Inl e) \<Rightarrow>
          (w1\<lparr>toasts := toasts w1 @ [ToastError (error_message e ''Registration failed'')]\<rparr>, Inl e))"

text \<open>\<^verbatim>\<open>logoutMutation\<close> through \<^verbatim>\<open>mutate\<close>: \<^verbatim>\<open>onSettled\<close> runs however the call ended.\<close>

definition logout :: "world \<Rightarrow> unit settled \<Rightarrow> world" where
  "logout w out =
     (case authAPI_logout w out of
        (w1, _) \<Rightarrow>
          w1\<lparr>localStorage := removeItem (removeItem (localStorage w1) ''accessToken'') ''refreshToken'',
             user := None,
             queryCache := Map.empty,
             toasts := toasts w1 @ [ToastSuccess ''Logged out successfully'']\<rparr>)"

definition forgotPassword ::
  "world \<Rightarrow> string \<Rightarrow> unit settled \<Rightarrow> world \<times> (axios_error + unit)" where
  "forgotPassword w mail out =
     (case authAPI_forgotPassword w mail out of
        (w1, Inr d) \<Rightarrow> (w1\<lparr>toasts := toasts w1 @ [ToastSuccess ''Password reset email sent!'']\<rparr>, Inr d)
      | (w1, Inl e) \<Rightarrow>
          (w1\<lparr>toasts := toasts w1 @ [ToastError (error_message e ''Failed to send reset email'')]\<rparr>, Inl e))"

definition resetPassword ::
  "world \<Rightarrow> string \<Rightarrow> string \<Rightarrow> unit settled \<Rightarrow> world \<times> (axios_error + unit)" where
  "resetPassword w token password out =
     (case authAPI_resetPassword w token password out of
        (w1, Inr d) \<Rightarrow> (w1\<lparr>toasts := toasts w1 @ [ToastSuccess ''Password reset successfully!'']\<rparr>, Inr d)
      | (w1, Inl e) \<Rightarrow>
          (w1\<lparr>toasts := toasts w1 @ [ToastError (error_message e ''Password reset failed'')]\<rparr>, Inl e))"

section \<open>The OAuth callback page\<close>

text \<open>
  \<^verbatim>\<open>handleCallback\<close> of \<^verbatim>\<open>OAuthCallback\<close>; \<open>searchParams\<close> gives \<^verbatim>\<open>searchParams.get(name)\<close>.
  \<^verbatim>\<open>
    if (error) { toast.error('Authentication failed: ' + error); navigate('/auth/login'); return; }
    if (token) { localStorage.setItem('accessToken', token);
                 toast.success('Successfully signed in!'); navigate('/dashboard'); }
    else { toast.error('No authentication token received'); navigate('/auth/login'); }
  \<close>
\<close>

definition handleCallback :: "world \<Rightarrow> (string \<rightharpoonup> string) \<Rightarrow> world" where
  "handleCallback w searchParams =
     (let token = searchParams ''token''; error = searchParams ''error'' in
      if truthy error then
        w\<lparr>toasts := toasts w @ [ToastError (''Authentication failed: '' @ (case error of Some e \<Rightarrow> e | None \<Rightarrow> []))],
          nav_log := nav_log w @ [''/auth/login'']\<rparr>
      else if truthy token then
        w\<lparr>localStorage := setItem (localStorage w) ''accessToken'' (case token of Some t \<Rightarrow> t | None \<Rightarrow> []),
          toasts := toasts w @ [ToastSuccess ''Successfully signed in!''],
          nav_log := nav_log w @ [''/dashboard'']\<rparr>
      else
        w\<lparr>toasts := toasts w @ [ToastError ''No authentication token received''],
          nav_log := nav_log w @ [''/auth/login'']\<rparr>)"

section \<open>The route guard\<close>

text \<open>
  The context value the guards read. \<open>queryLoading\<close> is the \<^verbatim>\<open>isLoading\<close> flag that
  \<^verbatim>\<open>useQuery\<close> reports for the current-user query:
  \<^verbatim>\<open>isLoading: isLoading || !isInitialized\<close>.
\<close>

record auth_context =
  ctx_user :: "user_data option"
  isLoading :: bool
  isAuthenticated :: bool

definition auth_value :: "bool \<Rightarrow> world \<Rightarrow> auth_context" where
  "auth_value queryLoading w =
     \<lparr>ctx_user = user w, isLoading = (queryLoading \<or> \<not> isInitialized w),
      isAuthenticated = (user w \<noteq> None)\<rparr>"

datatype page =
    LoginPage | RegisterPage | OAuthCallback
  | DashboardPage | EmailsPage | CalendarPage | AnalyticsPage
  | SettingsPage | IntegrationsPage | CreditsPage

text \<open>What a component renders. \<open>Navigate to r\<close> is \<^verbatim>\<open><Navigate to=... />\<close>, with \<open>r\<close> its \<^verbatim>\<open>replace\<close> flag.\<close>

datatype element =
    LoadingScreen
  | Navigate string bool
  | Page page
  | AuthLayout element
  | DashboardLayout element
  | AppDiv element

definition ProtectedRoute :: "auth_context \<Rightarrow> element \<Rightarrow> element" where
  "ProtectedRoute v children =
     (if isLoading v then LoadingScreen
      else if ctx_user v = None then Navigate ''/auth/login'' True
      else children)"

definition PublicRoute :: "auth_context \<Rightarrow> element \<Rightarrow> element" where
  "PublicRoute v children =
     (if isLoading v then LoadingScreen
      else if ctx_user v \<noteq> None then Navigate ''/dashboard'' True
      else children)"

text \<open>
  The two nested route tables. A location is the list of its path segments, as the
  router's matcher compares them (it ignores case and a trailing slash, so the segments
  are in lower case): \<^verbatim>\<open>/auth/login\<close> is \<open>[''auth'', ''login'']\<close>, \<^verbatim>\<open>/\<close> is \<open>[]\<close>.
\<close>

definition auth_routes :: "string list \<Rightarrow> element" where
  "auth_routes rest =
     (if rest = [''login''] then Page LoginPage
      else if rest = [''register''] then Page RegisterPage
      else if rest = [''callback''] then Page OAuthCallback
      else Navigate ''/auth/login'' True)"

definition app_routes :: "string list \<Rightarrow> element" where
  "app_routes path =
     (if path = [''dashboard''] then Page DashboardPage
      else if path = [''emails''] then Page EmailsPage
      else if path = [''calendar''] then Page CalendarPage
      else if path = [''analytics''] then Page AnalyticsPage
      else if path = [''settings''] then Page SettingsPage
      else if path = [''integrations''] then Page IntegrationsPage
      else if path = [''credits''] then Page CreditsPage
      else Navigate ''/dashboard'' True)"

definition App :: "auth_context \<Rightarrow> string list \<Rightarrow> element" where
  "App v path =
     (if isLoading v then LoadingScreen
      else AppDiv
        (case path of
           [] \<Rightarrow> ProtectedRoute v (DashboardLayout (app_routes path))
         | seg # rest \<Rightarrow>
             if seg = ''auth'' then PublicRoute v (AuthLayout (auth_routes rest))
             else ProtectedRoute v (DashboardLayout (app_routes path))))"

text \<open>The redirects an element contains, each with its \<^verbatim>\<open>replace\<close> flag.\<close>

fun redirects :: "element \<Rightarrow> (string \<times> bool) list" where
  "redirects LoadingScreen = []"
| "redirects (Navigate to r) = [(to, r)]"
| "redirects (Page p) = []"
| "redirects (AuthLayout e) = redirects e"
| "redirects (DashboardLayout e) = redirects e"
| "redirects (AppDiv e) = redirects e"

section \<open>Events\<close>

text \<open>
  The operations that touch the session, each with how its HTTP call settles: session
  resolution, the five operations of the store, the OAuth callback, and a data fetch of
  any page (\<^verbatim>\<open>axios.get('/api/emails')\<close> and the like), which reaches the session only
  through the interceptors.
\<close>

datatype event =
    Initialize "user_data settled"
  | Login body "auth_response settled"
  | Register body "auth_response settled"
  | Logout "unit settled"
  | ForgotPassword string "unit settled"
  | ResetPassword string string "unit settled"
  | OAuthReturn "string \<rightharpoonup> string"
  | Fetch http_method string body "string settled"

fun step :: "world \<Rightarrow> event \<Rightarrow> world" where
  "step w (Initialize out) = initialize w out"
| "step w (Login c out) = fst (login w c out)"
| "step w (Register d out) = fst (register w d out)"
| "step w (Logout out) = logout w out"
| "step w (ForgotPassword e out) = fst (forgotPassword w e out)"
| "step w (ResetPassword t p out) = fst (resetPassword w t p out)"
| "step w (OAuthReturn ps) = handleCallback w ps"
| "step w (Fetch m u d out) = fst (axios_request w m u d out)"

text \<open>The status of the error response an event's call was answered with, if it was.\<close>

fun rejected_status :: "'a settled \<Rightarrow> nat option" where
  "rejected_status (Rejected n det) = Some n"
| "rejected_status _ = None"

fun event_status :: "event \<Rightarrow> nat option" where
  "event_status (Initialize out) = rejected_status out"
| "event_status (Login c out) = rejected_status out"
| "event_status (Register d out) = rejected_status out"
| "event_status (Logout out) = rejected_status out"
| "event_status (ForgotPassword e out) = rejected_status out"
| "event_status (ResetPassword t p out) = rejected_status out"
| "event_status (OAuthReturn ps) = None"
| "event_status (Fetch m u d out) = rejected_status out"


section \<open>Example sessions\<close>

text \<open>
  The sessions of the specification's scenarios: a user \<^verbatim>\<open>{id: "u1", email: "a@b.com"}\<close>
  signed in with token \<^verbatim>\<open>t1\<close>, an initialized session with nobody signed in, and the
  error of a 401 answer to \<^verbatim>\<open>GET /api/emails\<close>.
\<close>

definition example_user :: user_data where
  "example_user = \<lparr>uid = ''u1'', email = ''a@b.com''\<rparr>"

definition signed_in :: world where
  "signed_in = (mount [''accessToken'' \<mapsto> ''t1''])\<lparr>user := Some example_user, isInitialized := True\<rparr>"

definition unauthorized :: axios_error where
  "unauthorized =
     \<lparr>err_config = \<lparr>req_method = GET, url = ''/api/emails'', data = NoBody,
                     headers = [''Authorization'' \<mapsto> ''Bearer t1''], retry = False\<rparr>,
      response = Some \<lparr>status = 401, detail = None\<rparr>\<rparr>"

definition anonymous :: world where
  "anonymous = (mount Map.empty)\<lparr>isInitialized := True\<rparr>"

text \<open>
  The body of a login request, and what the server answers when another account,
  \<^verbatim>\<open>u2\<close>, logs in.
\<close>

definition credentials :: body where
  "credentials = Fields [(''email'', ''c@d.com''), (''password'', ''x'')]"

definition other_account :: auth_response where
  "other_account = \<lparr>access_token = ''t2'', resp_user = \<lparr>uid = ''u2'', email = ''c@d.com''\<rparr>\<rparr>"

section \<open>Basic facts\<close>

lemma truthy_None [simp]: "\<not> truthy None"
  by (simp add: truthy_def)

lemma truthy_Some [simp]: "truthy (Some s) = (s \<noteq> [])"
  by (simp add: truthy_def)

lemma getItem_removeItem [simp]:
  "getItem (removeItem st k) k' = (if k' = k then None else getItem st k')"
  by (simp add: getItem_def removeItem_def)

lemma getItem_setItem [simp]:
  "getItem (setItem st k v) k' = (if k' = k then Some v else getItem st k')"
  by (simp add: getItem_def setItem_def)

lemma retry_request_interceptor [simp]: "retry (request_interceptor st cfg) = retry cfg"
  by (simp add: request_interceptor_def split: option.splits)

text \<open>What a call through axios does to the world, and how its promise settles.\<close>

lemma axios_request_world:
  "fst (axios_request w m u d out) =
     (if rejected_status out = Some 401 then
        w\<lparr>localStorage := removeItem (removeItem (localStorage w) ''accessToken'') ''refreshToken'',
          href_log := href_log w @ [''/auth/login'']\<rparr>
      else w)"
  by (cases out) (simp_all add: axios_request_def response_rejected_def Let_def)

lemma axios_request_settles:
  "snd (axios_request w m u d out) =
     (case out of
        Fulfilled r \<Rightarrow> Inr r
      | Rejected n det \<Rightarrow>
          Inl \<lparr>err_config = (request_interceptor (localStorage w)
                   \<lparr>req_method = m, url = u, data = d, headers = Map.empty, retry = False\<rparr>)\<lparr>retry := (n = 401)\<rparr>,
               response = Some \<lparr>status = n, detail = det\<rparr>\<rparr>
      | NetworkError \<Rightarrow>
          Inl \<lparr>err_config = request_interceptor (localStorage w)
                   \<lparr>req_method = m, url = u, data = d, headers = Map.empty, retry = False\<rparr>,
               response = None\<rparr>)"
  by (cases out) (auto simp add: axios_request_def response_rejected_def Let_def request_interceptor_def split: option.splits)

lemma initialize_without_token:
  "\<not> truthy (getItem (localStorage w) ''accessToken'') \<Longrightarrow> initialize w out = w\<lparr>isInitialized := True\<rparr>"
  by (simp add: initialize_def)

section \<open>Teardown on an authorization failure\<close>

text \<open>
  Claim C1, as amended. When the rejected handler of the response interceptor receives an
  error whose response has status 401 and whose request does not carry the retry marker,
  it tears the stored session down once: the access token (and the refresh token) are
  removed from storage and exactly one navigation to \<^verbatim>\<open>/auth/login\<close> is issued; the promise
  is rejected with the same error, now marked, and passing the marked error through the
  handler again changes nothing. Every call through axios that is answered with 401 ends
  in that world and in a rejection. The handler itself leaves \<open>user\<close> and
  \<open>isInitialized\<close> as they are; the user is gone only once the application is loaded
  afresh on the emptied storage, where session resolution ends with no user.
\<close>

theorem unauthorized_teardown_once:
  fixes w :: world and e :: axios_error
  assumes "response e = Some r" and "status r = 401" and "\<not> retry (err_config e)"
  shows "\<exists>w' e'. (response_rejected w e :: world \<times> (axios_error + 'a)) = (w', Inl e')
      \<and> getItem (localStorage w') ''accessToken'' = None
      \<and> getItem (localStorage w') ''refreshToken'' = None
      \<and> href_log w' = href_log w @ [''/auth/login'']
      \<and> user w' = user w \<and> isInitialized w' = isInitialized w
      \<and> response e' = response e \<and> retry (err_config e')
      \<and> (response_rejected w' e' :: world \<times> (axios_error + 'a)) = (w', Inl e')
      \<and> (\<forall>m u d det. \<exists>e''. axios_request w m u d (Rejected 401 det :: 'a settled) = (w', Inl e''))
      \<and> (\<forall>out. user (initialize (mount (localStorage w')) out) = None
                \<and> isInitialized (initialize (mount (localStorage w')) out))"
proof -
  let ?w = "w\<lparr>localStorage := removeItem (removeItem (localStorage w) ''accessToken'') ''refreshToken'',
              href_log := href_log w @ [''/auth/login'']\<rparr>"
  let ?e = "e\<lparr>err_config := (err_config e)\<lparr>retry := True\<rparr>\<rparr>"
  have first: "(response_rejected w e :: world \<times> (axios_error + 'a)) = (?w, Inl ?e)"
    using assms by (simp add: response_rejected_def)
  have second: "(response_rejected ?w ?e :: world \<times> (axios_error + 'a)) = (?w, Inl ?e)"
    by (simp add: response_rejected_def)
  have no_token: "\<not> truthy (getItem (localStorage (mount (localStorage ?w))) ''accessToken'')"
    by (simp add: mount_def)
  have fresh: "initialize (mount (localStorage ?w)) out = (mount (localStorage ?w))\<lparr>isInitialized := True\<rparr>" for out
    using no_token by (rule initialize_without_token)
  have reload: "user (initialize (mount (localStorage ?w)) out) = None
      \<and> isInitialized (initialize (mount (localStorage ?w)) out)" for out
    unfolding fresh by (simp add: mount_def)
  have call: "\<exists>e''. axios_request w m u d (Rejected 401 det :: 'a settled) = (?w, Inl e'')" for m u d det
    by (simp add: axios_request_def response_rejected_def Let_def)
  show ?thesis
    apply (rule exI [of _ ?w], rule exI [of _ ?e])
    using first second reload call by simp
qed

text \<open>The hypotheses hold for a 401 answer to \<^verbatim>\<open>GET /api/emails\<close> in a signed-in session.\<close>

theorem unauthorized_teardown_once_witness:
  "response unauthorized = Some \<lparr>status = 401, detail = None\<rparr>
   \<and> \<not> retry (err_config unauthorized)
   \<and> (\<exists>w' e'. (response_rejected signed_in unauthorized :: world \<times> (axios_error + string)) = (w', Inl e')
      \<and> getItem (localStorage w') ''accessToken'' = None
      \<and> href_log w' = [''/auth/login'']
      \<and> user w' = Some example_user
      \<and> (response_rejected w' e' :: world \<times> (axios_error + string)) = (w', Inl e'))"
proof -
  have h1: "response unauthorized = Some \<lparr>status = 401, detail = None\<rparr>"
    by (simp add: unauthorized_def)
  have h2: "status \<lparr>status = 401, detail = None\<rparr> = 401"
    by simp
  have h3: "\<not> retry (err_config unauthorized)"
    by (simp add: unauthorized_def)
  have start: "href_log signed_in = []" "user signed_in = Some example_user"
    by (simp_all add: signed_in_def mount_def)
  from unauthorized_teardown_once [OF h1 h2 h3, of signed_in, where 'a = string]
  obtain w' e' where
    "(response_rejected signed_in unauthorized :: world \<times> (axios_error + string)) = (w', Inl e')"
    "getItem (localStorage w') ''accessToken'' = None"
    "href_log w' = href_log signed_in @ [''/auth/login'']"
    "user w' = user signed_in"
    "(response_rejected w' e' :: world \<times> (axios_error + string)) = (w', Inl e')"
    by blast
  with start h1 h3 show ?thesis by auto
qed

text \<open>
  Claim C1 as stated says the teardown clears the user. After a 401 answer to
  \<^verbatim>\<open>GET /api/emails\<close> in a signed-in session the token is removed and the user is still held.
\<close>

theorem teardown_keeps_user_counterexample:
  "user (fst (axios_request signed_in GET ''/api/emails'' NoBody (Rejected 401 None :: string settled)))
     = Some example_user
   \<and> getItem (localStorage (fst (axios_request signed_in GET ''/api/emails'' NoBody
         (Rejected 401 None :: string settled)))) ''accessToken'' = None"
  by (simp add: axios_request_world signed_in_def mount_def)

section \<open>The route guard before initialization\<close>

text \<open>
  Claim C2. While the session store is not initialized, the application and both guards
  render the loading screen for every location and whatever the current-user query
  reports: never the children, never a redirect.
\<close>

theorem loading_until_initialized:
  "\<not> isInitialized w \<Longrightarrow>
     App (auth_value queryLoading w) path = LoadingScreen
     \<and> ProtectedRoute (auth_value queryLoading w) children = LoadingScreen
     \<and> PublicRoute (auth_value queryLoading w) children = LoadingScreen
     \<and> redirects (App (auth_value queryLoading w) path) = []"
  by (simp add: App_def ProtectedRoute_def PublicRoute_def auth_value_def)

text \<open>The freshly mounted store is not initialized.\<close>

theorem loading_until_initialized_witness:
  "\<not> isInitialized (mount [''accessToken'' \<mapsto> ''t1''])
   \<and> App (auth_value True (mount [''accessToken'' \<mapsto> ''t1''])) [''dashboard''] = LoadingScreen
   \<and> App (auth_value False (mount [''accessToken'' \<mapsto> ''t1''])) [''auth'', ''login''] = LoadingScreen
   \<and> ProtectedRoute (auth_value False (mount [''accessToken'' \<mapsto> ''t1'']))
        (DashboardLayout (Page DashboardPage)) = LoadingScreen
   \<and> PublicRoute (auth_value False (mount [''accessToken'' \<mapsto> ''t1'']))
        (AuthLayout (Page LoginPage)) = LoadingScreen"
proof -
  have h: "\<not> isInitialized (mount [''accessToken'' \<mapsto> ''t1''])"
    by (simp add: mount_def)
  show ?thesis
    using h loading_until_initialized [OF h, of True "[''dashboard'']"]
      loading_until_initialized [OF h, of False "[''auth'', ''login'']" "DashboardLayout (Page DashboardPage)"]
      loading_until_initialized [OF h, of False "[''auth'', ''login'']" "AuthLayout (Page LoginPage)"]
    by simp
qed

section \<open>The route guard after initialization\<close>

text \<open>
  Claim C3 as stated decides on \<open>isInitialized\<close> alone. The guards test
  \<^verbatim>\<open>isLoading || !isInitialized\<close>: an initialized store with no user, whose
  current-user query is loading (it is enabled by a token that was stored after startup,
  as the OAuth callback does), gets the loading screen on \<^verbatim>\<open>/dashboard\<close> and no redirect.
\<close>

theorem initialized_but_loading_counterexample:
  "isInitialized anonymous \<and> user anonymous = None
   \<and> App (auth_value True anonymous) [''dashboard''] = LoadingScreen
   \<and> ProtectedRoute (auth_value True anonymous) (DashboardLayout (Page DashboardPage)) = LoadingScreen
   \<and> ProtectedRoute (auth_value True anonymous) (DashboardLayout (Page DashboardPage))
        \<noteq> Navigate ''/auth/login'' True"
  by (simp add: anonymous_def mount_def App_def ProtectedRoute_def auth_value_def)

lemma redirects_auth_routes: "(to, r) \<in> set (redirects (auth_routes rest)) \<Longrightarrow> r"
  by (simp add: auth_routes_def split: if_splits)

lemma redirects_app_routes: "(to, r) \<in> set (redirects (app_routes path)) \<Longrightarrow> r"
  by (simp add: app_routes_def split: if_splits)

lemma redirects_ProtectedRoute:
  "(to, r) \<in> set (redirects (ProtectedRoute v c)) \<Longrightarrow> (to, r) \<in> set (redirects c) \<or> r"
  by (simp add: ProtectedRoute_def split: if_splits)

lemma redirects_PublicRoute:
  "(to, r) \<in> set (redirects (PublicRoute v c)) \<Longrightarrow> (to, r) \<in> set (redirects c) \<or> r"
  by (simp add: PublicRoute_def split: if_splits)

lemma redirects_App: "(to, r) \<in> set (redirects (App v path)) \<Longrightarrow> r"
  by (auto simp: App_def split: if_splits list.splits
      dest!: redirects_ProtectedRoute redirects_PublicRoute
      dest: redirects_auth_routes redirects_app_routes)

text \<open>
  Claim C3, as amended. Once the store is initialized and the current-user query is not
  loading: a protected route with no user redirects to \<^verbatim>\<open>/auth/login\<close>; a public route
  (any location under \<^verbatim>\<open>/auth\<close>) with a user redirects to \<^verbatim>\<open>/dashboard\<close>; the other two
  combinations render the requested screen; and every redirect the application renders
  has the \<^verbatim>\<open>replace\<close> flag.
\<close>

theorem route_guard_decisions:
  assumes "isInitialized w" and "\<not> queryLoading"
  shows "(user w = None \<longrightarrow> ProtectedRoute (auth_value queryLoading w) children = Navigate ''/auth/login'' True)
    \<and> (user w \<noteq> None \<longrightarrow> PublicRoute (auth_value queryLoading w) children = Navigate ''/dashboard'' True)
    \<and> (user w \<noteq> None \<longrightarrow> ProtectedRoute (auth_value queryLoading w) children = children)
    \<and> (user w = None \<longrightarrow> PublicRoute (auth_value queryLoading w) children = children)
    \<and> (user w = None \<longrightarrow> path = [] \<or> hd path \<noteq> ''auth'' \<longrightarrow>
          App (auth_value queryLoading w) path = AppDiv (Navigate ''/auth/login'' True))
    \<and> (user w \<noteq> None \<longrightarrow>
          App (auth_value queryLoading w) (''auth'' # rest) = AppDiv (Navigate ''/dashboard'' True))
    \<and> (user w \<noteq> None \<longrightarrow> path = [] \<or> hd path \<noteq> ''auth'' \<longrightarrow>
          App (auth_value queryLoading w) path = AppDiv (DashboardLayout (app_routes path)))
    \<and> (user w = None \<longrightarrow>
          App (auth_value queryLoading w) (''auth'' # rest) = AppDiv (AuthLayout (auth_routes rest)))
    \<and> (\<forall>(to, r) \<in> set (redirects (App (auth_value queryLoading w) path)). r)"
proof -
  have guards: "\<not> isLoading (auth_value queryLoading w)" "ctx_user (auth_value queryLoading w) = user w"
    using assms by (simp_all add: auth_value_def)
  have protected: "ProtectedRoute (auth_value queryLoading w) c =
      (if user w = None then Navigate ''/auth/login'' True else c)" for c
    using guards by (simp add: ProtectedRoute_def)
  have public: "PublicRoute (auth_value queryLoading w) c =
      (if user w \<noteq> None then Navigate ''/dashboard'' True else c)" for c
    using guards by (simp add: PublicRoute_def)
  have app_auth: "App (auth_value queryLoading w) (''auth'' # rest) =
      AppDiv (PublicRoute (auth_value queryLoading w) (AuthLayout (auth_routes rest)))"
    using guards by (simp add: App_def)
  have app_other: "path = [] \<or> hd path \<noteq> ''auth'' \<Longrightarrow> App (auth_value queryLoading w) path =
      AppDiv (ProtectedRoute (auth_value queryLoading w) (DashboardLayout (app_routes path)))"
    using guards by (cases path) (simp_all add: App_def)
  have replace: "\<forall>(to, r) \<in> set (redirects (App (auth_value queryLoading w) path)). r"
    using redirects_App by blast
  show ?thesis
    using protected public app_auth app_other replace by simp
qed

text \<open>The four combinations on \<^verbatim>\<open>/dashboard\<close> and \<^verbatim>\<open>/auth/login\<close>.\<close>

theorem route_guard_decisions_witness:
  "isInitialized anonymous \<and> user anonymous = None
   \<and> App (auth_value False anonymous) [''dashboard''] = AppDiv (Navigate ''/auth/login'' True)
   \<and> App (auth_value False anonymous) [''auth'', ''login''] = AppDiv (AuthLayout (Page LoginPage))
   \<and> isInitialized signed_in \<and> user signed_in \<noteq> None
   \<and> App (auth_value False signed_in) [''auth'', ''login''] = AppDiv (Navigate ''/dashboard'' True)
   \<and> App (auth_value False signed_in) [''dashboard''] = AppDiv (DashboardLayout (Page DashboardPage))"
proof -
  have a: "isInitialized anonymous" and au: "user anonymous = None"
    by (simp_all add: anonymous_def mount_def)
  have s: "isInitialized signed_in" and su: "user signed_in \<noteq> None"
    by (simp_all add: signed_in_def mount_def)
  have q: "\<not> False" by simp
  show ?thesis
    using a au s su
      route_guard_decisions [OF a q, of "DashboardLayout (Page DashboardPage)" "[''dashboard'']" "[''login'']"]
      route_guard_decisions [OF s q, of "DashboardLayout (Page DashboardPage)" "[''dashboard'']" "[''login'']"]
    by (simp add: auth_routes_def app_routes_def)
qed

lemma initialize_with_token:
  "truthy (getItem (localStorage w) ''accessToken'') \<Longrightarrow>
   initialize w out =
     (case out of
        Fulfilled d \<Rightarrow>
          w\<lparr>user := Some d, isInitialized := True,
            queryCache := (queryCache w)(''currentUser'' \<mapsto> CachedUser d)\<rparr>
      | _ \<Rightarrow>
          (fst (axios_request w GET ''/api/auth/me'' NoBody out))
            \<lparr>console := console w @ [''Auth error:''],
             localStorage := removeItem (localStorage (fst (axios_request w GET ''/api/auth/me'' NoBody out))) ''accessToken'',
             user := None, isInitialized := True\<rparr>)"
  by (cases out)
    (simp_all add: initialize_def authAPI_getCurrentUser_def axios_request_def
      response_rejected_def Let_def)

section \<open>Session resolution\<close>

text \<open>
  Claim C4. Session resolution always ends initialized, however the \<^verbatim>\<open>/api/auth/me\<close> call
  settles. With no token in storage it only marks the store initialized, without looking
  at any response, and the freshly mounted store has no user. With a token, a successful
  fetch sets the user and marks initialized, leaving storage alone; any failure (an error
  status or no response at all) removes the token, sets the user absent and marks
  initialized.
\<close>

theorem initialize_resolves:
  "isInitialized (initialize w out)
   \<and> (\<not> truthy (getItem (localStorage w) ''accessToken'') \<longrightarrow>
        initialize w out = w\<lparr>isInitialized := True\<rparr>)
   \<and> (\<not> truthy (getItem st ''accessToken'') \<longrightarrow>
        user (initialize (mount st) out) = None \<and> isInitialized (initialize (mount st) out))
   \<and> (truthy (getItem (localStorage w) ''accessToken'') \<longrightarrow> out = Fulfilled d \<longrightarrow>
        user (initialize w out) = Some d \<and> isInitialized (initialize w out)
        \<and> localStorage (initialize w out) = localStorage w)
   \<and> (truthy (getItem (localStorage w) ''accessToken'') \<longrightarrow> (\<forall>d. out \<noteq> Fulfilled d) \<longrightarrow>
        getItem (localStorage (initialize w out)) ''accessToken'' = None
        \<and> user (initialize w out) = None \<and> isInitialized (initialize w out))"
proof -
  have without: "initialize w' out = w'\<lparr>isInitialized := True\<rparr>"
    if "\<not> truthy (getItem (localStorage w') ''accessToken'')" for w'
    using that by (rule initialize_without_token)
  have startup: "user (initialize (mount st) out) = None \<and> isInitialized (initialize (mount st) out)"
    if "\<not> truthy (getItem st ''accessToken'')"
  proof -
    from that have "\<not> truthy (getItem (localStorage (mount st)) ''accessToken'')"
      by (simp add: mount_def)
    then have "initialize (mount st) out = (mount st)\<lparr>isInitialized := True\<rparr>"
      by (rule without)
    then show ?thesis by (simp add: mount_def)
  qed
  have success: "user (initialize w out) = Some d \<and> isInitialized (initialize w out)
      \<and> localStorage (initialize w out) = localStorage w"
    if "truthy (getItem (localStorage w) ''accessToken'')" "out = Fulfilled d"
    using that by (simp add: initialize_with_token)
  have failure: "getItem (localStorage (initialize w out)) ''accessToken'' = None
      \<and> user (initialize w out) = None \<and> isInitialized (initialize w out)"
    if "truthy (getItem (localStorage w) ''accessToken'')" "\<forall>d. out \<noteq> Fulfilled d"
    using that by (cases out) (simp_all add: initialize_with_token)
  have always: "isInitialized (initialize w out)"
  proof (cases "truthy (getItem (localStorage w) ''accessToken'')")
    case True
    then show ?thesis by (cases out) (simp_all add: initialize_with_token)
  next
    case False
    then show ?thesis by (simp add: without)
  qed
  show ?thesis
    using without startup success failure always by blast
qed

text \<open>No token; a token with a 200, a 401 and a network failure.\<close>

theorem initialize_resolves_witness:
  "\<not> truthy (getItem Map.empty ''accessToken'')
   \<and> user (initialize (mount Map.empty) NetworkError) = None
   \<and> isInitialized (initialize (mount Map.empty) NetworkError)
   \<and> truthy (getItem (localStorage (mount [''accessToken'' \<mapsto> ''t1''])) ''accessToken'')
   \<and> user (initialize (mount [''accessToken'' \<mapsto> ''t1'']) (Fulfilled example_user)) = Some example_user
   \<and> isInitialized (initialize (mount [''accessToken'' \<mapsto> ''t1'']) (Fulfilled example_user))
   \<and> getItem (localStorage (initialize (mount [''accessToken'' \<mapsto> ''t1'']) (Rejected 401 None)))
        ''accessToken'' = None
   \<and> user (initialize (mount [''accessToken'' \<mapsto> ''t1'']) (Rejected 401 None)) = None
   \<and> isInitialized (initialize (mount [''accessToken'' \<mapsto> ''t1'']) (Rejected 401 None))
   \<and> getItem (localStorage (initialize (mount [''accessToken'' \<mapsto> ''t1'']) NetworkError))
        ''accessToken'' = None
   \<and> isInitialized (initialize (mount [''accessToken'' \<mapsto> ''t1'']) NetworkError)"
proof -
  have none: "\<not> truthy (getItem Map.empty ''accessToken'')"
    by (simp add: getItem_def)
  have some: "truthy (getItem (localStorage (mount [''accessToken'' \<mapsto> ''t1''])) ''accessToken'')"
    by (simp add: getItem_def mount_def)
  show ?thesis
    using none some
      initialize_resolves [of "mount Map.empty" NetworkError Map.empty example_user]
      initialize_resolves [of "mount [''accessToken'' \<mapsto> ''t1'']" "Fulfilled example_user" Map.empty example_user]
      initialize_resolves [of "mount [''accessToken'' \<mapsto> ''t1'']" "Rejected 401 None" Map.empty example_user]
      initialize_resolves [of "mount [''accessToken'' \<mapsto> ''t1'']" NetworkError Map.empty example_user]
    by simp
qed

lemma authAPI_logout_never_rejects: "snd (authAPI_logout w out) = Inr ()"
  by (simp add: authAPI_logout_def split: prod.splits sum.splits)

section \<open>Logout\<close>

text \<open>
  Claim C5. However the server-side logout call settles, \<open>logout\<close> removes the token
  from storage, clears the user, empties the query cache and reports completion (the
  success toast is the last one issued; \<^verbatim>\<open>authAPI.logout\<close> itself never rejects).
\<close>

theorem logout_always_tears_down:
  "getItem (localStorage (logout w out)) ''accessToken'' = None
   \<and> getItem (localStorage (logout w out)) ''refreshToken'' = None
   \<and> user (logout w out) = None
   \<and> queryCache (logout w out) = Map.empty
   \<and> toasts (logout w out) \<noteq> []
   \<and> last (toasts (logout w out)) = ToastSuccess ''Logged out successfully''
   \<and> snd (authAPI_logout w out) = Inr ()"
  using authAPI_logout_never_rejects [of w out]
  by (simp add: logout_def split: prod.splits)

section \<open>The OAuth callback\<close>

text \<open>
  Claim C10 as stated asks only that both parameters are present. The handler tests
  \<^verbatim>\<open>if (error)\<close>, and \<^verbatim>\<open>searchParams.get('error')\<close> is the empty string for
  \<^verbatim>\<open>?token=t9&error=\<close>: the error parameter is present, the error branch is not taken,
  the token is written to storage and the router navigates to \<^verbatim>\<open>/dashboard\<close>.
\<close>

theorem empty_error_stores_token_counterexample:
  "[''token'' \<mapsto> ''t9'', ''error'' \<mapsto> []] ''token'' = Some ''t9''
   \<and> [''token'' \<mapsto> ''t9'', ''error'' \<mapsto> []] ''error'' = Some []
   \<and> getItem (localStorage (handleCallback anonymous [''token'' \<mapsto> ''t9'', ''error'' \<mapsto> []]))
        ''accessToken'' = Some ''t9''
   \<and> nav_log (handleCallback anonymous [''token'' \<mapsto> ''t9'', ''error'' \<mapsto> []]) = [''/dashboard'']
   \<and> toasts (handleCallback anonymous [''token'' \<mapsto> ''t9'', ''error'' \<mapsto> []])
        = [ToastSuccess ''Successfully signed in!'']"
  by (simp add: handleCallback_def Let_def anonymous_def mount_def)

text \<open>
  Claim C10, as amended. When the callback is entered with both a \<^verbatim>\<open>token\<close> query
  parameter and an \<^verbatim>\<open>error\<close> query parameter whose value is not empty, the error branch
  is taken: the failure is reported, the router navigates to \<^verbatim>\<open>/auth/login\<close>, and storage
  is left as it was, so the token is not written.
\<close>

theorem oauth_error_takes_precedence:
  "searchParams ''token'' = Some t \<Longrightarrow> searchParams ''error'' = Some e \<Longrightarrow> e \<noteq> [] \<Longrightarrow>
     handleCallback w searchParams =
       w\<lparr>toasts := toasts w @ [ToastError (''Authentication failed: '' @ e)],
         nav_log := nav_log w @ [''/auth/login'']\<rparr>
     \<and> localStorage (handleCallback w searchParams) = localStorage w
     \<and> getItem (localStorage (handleCallback w searchParams)) ''accessToken''
         = getItem (localStorage w) ''accessToken''"
  by (simp add: handleCallback_def Let_def)

text \<open>A callback with \<^verbatim>\<open>?token=t9&error=access_denied\<close> in an anonymous session.\<close>

theorem oauth_error_takes_precedence_witness:
  "[''token'' \<mapsto> ''t9'', ''error'' \<mapsto> ''access_denied''] ''token'' = Some ''t9''
   \<and> [''token'' \<mapsto> ''t9'', ''error'' \<mapsto> ''access_denied''] ''error'' = Some ''access_denied''
   \<and> handleCallback anonymous [''token'' \<mapsto> ''t9'', ''error'' \<mapsto> ''access_denied''] =
       anonymous\<lparr>toasts := [ToastError ''Authentication failed: access_denied''],
                 nav_log := [''/auth/login'']\<rparr>
   \<and> getItem (localStorage (handleCallback anonymous
         [''token'' \<mapsto> ''t9'', ''error'' \<mapsto> ''access_denied''])) ''accessToken'' = None"
proof -
  have h1: "[''token'' \<mapsto> ''t9'', ''error'' \<mapsto> ''access_denied''] ''token'' = Some ''t9''"
    by simp
  have h2: "[''token'' \<mapsto> ''t9'', ''error'' \<mapsto> ''access_denied''] ''error'' = Some ''access_denied''"
    by simp
  have h3: "''access_denied'' \<noteq> []"
    by simp
  have start: "toasts anonymous = []" "nav_log anonymous = []"
      "getItem (localStorage anonymous) ''accessToken'' = None"
    by (simp_all add: anonymous_def mount_def getItem_def)
  from oauth_error_takes_precedence [OF h1 h2 h3, of anonymous]
  have "handleCallback anonymous [''token'' \<mapsto> ''t9'', ''error'' \<mapsto> ''access_denied''] =
       anonymous\<lparr>toasts := [ToastError (''Authentication failed: '' @ ''access_denied'')],
                 nav_log := [''/auth/login'']\<rparr>
     \<and> getItem (localStorage (handleCallback anonymous
         [''token'' \<mapsto> ''t9'', ''error'' \<mapsto> ''access_denied''])) ''accessToken'' = None"
    unfolding start append_Nil by blast
  then have "handleCallback anonymous [''token'' \<mapsto> ''t9'', ''error'' \<mapsto> ''access_denied''] =
       anonymous\<lparr>toasts := [ToastError ''Authentication failed: access_denied''],
                 nav_log := [''/auth/login'']\<rparr>
     \<and> getItem (localStorage (handleCallback anonymous
         [''token'' \<mapsto> ''t9'', ''error'' \<mapsto> ''access_denied''])) ''accessToken'' = None"
    unfolding append.simps .
  with h1 h2 show ?thesis by blast
qed

section \<open>Storage and user after each operation\<close>

lemma login_storage:
  "localStorage (fst (login w c out)) =
     (case out of
        Fulfilled d \<Rightarrow> setItem (localStorage w) ''accessToken'' (access_token d)
      | _ \<Rightarrow> localStorage (fst (axios_request w POST ''/api/auth/login'' c out)))"
  by (cases out)
    (simp_all add: login_def authAPI_login_def axios_request_def response_rejected_def Let_def)

lemma login_user:
  "user (fst (login w c out)) = (case out of Fulfilled d \<Rightarrow> Some (resp_user d) | _ \<Rightarrow> user w)"
  by (cases out)
    (simp_all add: login_def authAPI_login_def axios_request_def response_rejected_def Let_def)

lemma register_storage:
  "localStorage (fst (register w c out)) =
     (case out of
        Fulfilled d \<Rightarrow> setItem (localStorage w) ''accessToken'' (access_token d)
      | _ \<Rightarrow> localStorage (fst (axios_request w POST ''/api/auth/register'' c out)))"
  by (cases out)
    (simp_all add: register_def authAPI_register_def axios_request_def response_rejected_def Let_def)

lemma register_user:
  "user (fst (register w c out)) = (case out of Fulfilled d \<Rightarrow> Some (resp_user d) | _ \<Rightarrow> user w)"
  by (cases out)
    (simp_all add: register_def authAPI_register_def axios_request_def response_rejected_def Let_def)

lemma forgotPassword_storage:
  "localStorage (fst (forgotPassword w e out)) =
     localStorage (fst (axios_request w POST ''/api/auth/forgot-password'' (Fields [(''email'', e)]) out))"
  by (cases out)
    (simp_all add: forgotPassword_def authAPI_forgotPassword_def axios_request_def
      response_rejected_def Let_def)

lemma resetPassword_storage:
  "localStorage (fst (resetPassword w t p out)) =
     localStorage (fst (axios_request w POST ''/api/auth/reset-password''
        (Fields [(''token'', t), (''new_password'', p)]) out))"
  by (cases out)
    (simp_all add: resetPassword_def authAPI_resetPassword_def axios_request_def
      response_rejected_def Let_def)

lemma axios_request_token:
  "getItem (localStorage (fst (axios_request w m u d out))) ''accessToken'' =
     (if rejected_status out = Some 401 then None else getItem (localStorage w) ''accessToken'')"
  by (simp add: axios_request_world)

lemma axios_request_user: "user (fst (axios_request w m u d out)) = user w"
  by (simp add: axios_request_world)

lemma logout_token: "getItem (localStorage (logout w out)) ''accessToken'' = None"
  by (simp add: logout_def split: prod.splits)

lemma handleCallback_token:
  "getItem (localStorage (handleCallback w ps)) ''accessToken'' =
     (if \<not> truthy (ps ''error'') \<and> truthy (ps ''token'') then ps ''token''
      else getItem (localStorage w) ''accessToken'')"
  by (auto simp: handleCallback_def Let_def truthy_def split: option.splits)

lemma initialize_token:
  "getItem (localStorage (initialize w out)) ''accessToken'' =
     (if truthy (getItem (localStorage w) ''accessToken'') \<and> (\<forall>d. out \<noteq> Fulfilled d) then None
      else getItem (localStorage w) ''accessToken'')"
proof (cases "truthy (getItem (localStorage w) ''accessToken'')")
  case True
  then show ?thesis by (cases out) (simp_all add: initialize_with_token)
next
  case False
  then show ?thesis by (simp add: initialize_without_token)
qed

text \<open>The stored token after each event.\<close>

lemma step_token:
  "getItem (localStorage (step w ev)) ''accessToken'' =
     (case ev of
        Initialize out \<Rightarrow>
          if truthy (getItem (localStorage w) ''accessToken'') \<and> (\<forall>d. out \<noteq> Fulfilled d) then None
          else getItem (localStorage w) ''accessToken''
      | Login c out \<Rightarrow>
          (case out of Fulfilled d \<Rightarrow> Some (access_token d)
           | _ \<Rightarrow> if rejected_status out = Some 401 then None else getItem (localStorage w) ''accessToken'')
      | Register c out \<Rightarrow>
          (case out of Fulfilled d \<Rightarrow> Some (access_token d)
           | _ \<Rightarrow> if rejected_status out = Some 401 then None else getItem (localStorage w) ''accessToken'')
      | Logout out \<Rightarrow> None
      | OAuthReturn ps \<Rightarrow>
          if \<not> truthy (ps ''error'') \<and> truthy (ps ''token'') then ps ''token''
          else getItem (localStorage w) ''accessToken''
      | _ \<Rightarrow> if event_status ev = Some 401 then None else getItem (localStorage w) ''accessToken'')"
proof (cases ev)
  case (Initialize out)
  then show ?thesis by (simp add: initialize_token)
next
  case (Login c out)
  then show ?thesis by (cases out) (simp_all add: login_storage axios_request_token)
next
  case (Register c out)
  then show ?thesis by (cases out) (simp_all add: register_storage axios_request_token)
next
  case (Logout out)
  then show ?thesis by (simp add: logout_token)
next
  case (ForgotPassword e out)
  then show ?thesis by (simp add: forgotPassword_storage axios_request_token)
next
  case (ResetPassword t p out)
  then show ?thesis by (simp add: resetPassword_storage axios_request_token)
next
  case (OAuthReturn ps)
  then show ?thesis by (simp add: handleCallback_token)
next
  case (Fetch m u d out)
  then show ?thesis by (simp add: axios_request_token)
qed

section \<open>What removes the stored token\<close>

text \<open>
  Claim C7, as amended. Over all events that touch the session (session resolution,
  login, register, logout, the password operations, the OAuth callback and any page's
  call through axios): if the access token is in storage before an event and not after
  it, the event is a logout, or its call was answered with status 401, or it is a session
  resolution whose current-user fetch failed, for whatever reason. Conversely each of
  these removes the token: every logout, every 401 answer to a call, and every failed
  current-user fetch made with a token in storage. A failure other than 401 of any call
  that is not the current-user fetch leaves the token where it is.
\<close>

theorem token_removal_triggers:
  "(getItem (localStorage w) ''accessToken'' \<noteq> None \<longrightarrow>
      getItem (localStorage (step w ev)) ''accessToken'' = None \<longrightarrow>
        (\<exists>out. ev = Logout out) \<or> event_status ev = Some 401
        \<or> (\<exists>out. ev = Initialize out \<and> (\<forall>d. out \<noteq> Fulfilled d)))
   \<and> ((\<exists>out. ev = Logout out)
        \<or> (event_status ev = Some 401 \<and> (\<forall>out. ev \<noteq> Initialize out))
        \<or> (\<exists>out. ev = Initialize out \<and> (\<forall>d. out \<noteq> Fulfilled d)
              \<and> truthy (getItem (localStorage w) ''accessToken'')) \<longrightarrow>
      getItem (localStorage (step w ev)) ''accessToken'' = None)"
proof -
  have only: "(\<exists>out. ev = Logout out) \<or> event_status ev = Some 401
        \<or> (\<exists>out. ev = Initialize out \<and> (\<forall>d. out \<noteq> Fulfilled d))"
    if "getItem (localStorage w) ''accessToken'' \<noteq> None"
      and "getItem (localStorage (step w ev)) ''accessToken'' = None"
    using that unfolding step_token
    by (cases ev) (auto split: settled.splits if_splits simp: truthy_def)
  have removes: "getItem (localStorage (step w ev)) ''accessToken'' = None"
    if "(\<exists>out. ev = Logout out)
        \<or> (event_status ev = Some 401 \<and> (\<forall>out. ev \<noteq> Initialize out))
        \<or> (\<exists>out. ev = Initialize out \<and> (\<forall>d. out \<noteq> Fulfilled d)
              \<and> truthy (getItem (localStorage w) ''accessToken''))"
    using that unfolding step_token
    by (cases ev) (auto split: settled.splits)
  show ?thesis
    using only removes by blast
qed

text \<open>
  In a signed-in session: a 401 answer to \<^verbatim>\<open>GET /api/emails\<close>, a logout whose call fails,
  and a current-user fetch answered with 500 remove the token; a 500 answer to
  \<^verbatim>\<open>GET /api/emails\<close> does not.
\<close>

theorem token_removal_triggers_witness:
  "getItem (localStorage signed_in) ''accessToken'' \<noteq> None
   \<and> event_status (Fetch GET ''/api/emails'' NoBody (Rejected 401 None)) = Some 401
   \<and> getItem (localStorage (step signed_in (Fetch GET ''/api/emails'' NoBody (Rejected 401 None))))
        ''accessToken'' = None
   \<and> getItem (localStorage (step signed_in (Logout NetworkError))) ''accessToken'' = None
   \<and> getItem (localStorage (step signed_in (Initialize (Rejected 500 None)))) ''accessToken'' = None
   \<and> getItem (localStorage (step signed_in (Fetch GET ''/api/emails'' NoBody (Rejected 500 None))))
        ''accessToken'' \<noteq> None"
proof -
  have before: "getItem (localStorage signed_in) ''accessToken'' = Some ''t1''"
    by (simp add: signed_in_def mount_def getItem_def)
  have kept: "getItem (localStorage (step signed_in (Fetch GET ''/api/emails'' NoBody (Rejected 500 None))))
      ''accessToken'' = Some ''t1''"
    by (simp add: axios_request_token before)
  show ?thesis
    using before kept
      token_removal_triggers [of signed_in "Fetch GET ''/api/emails'' NoBody (Rejected 401 None)"]
      token_removal_triggers [of signed_in "Logout NetworkError"]
      token_removal_triggers [of signed_in "Initialize (Rejected 500 None)"]
    by simp
qed

text \<open>
  Claim C7 as stated names the 401 answer and logout as the only removals. Session
  resolution with a stored token removes it when \<^verbatim>\<open>/api/auth/me\<close> is answered with 500, and
  when there is no response at all.
\<close>

theorem startup_failure_removes_token_counterexample:
  "getItem (localStorage (mount [''accessToken'' \<mapsto> ''t1''])) ''accessToken'' = Some ''t1''
   \<and> getItem (localStorage (step (mount [''accessToken'' \<mapsto> ''t1'']) (Initialize (Rejected 500 None))))
        ''accessToken'' = None
   \<and> event_status (Initialize (Rejected 500 None)) = Some 500
   \<and> getItem (localStorage (step (mount [''accessToken'' \<mapsto> ''t1'']) (Initialize NetworkError)))
        ''accessToken'' = None
   \<and> event_status (Initialize NetworkError) = None"
  by (simp add: initialize_token) (simp add: mount_def getItem_def)




section \<open>Token and user together\<close>




section \<open>Login while signed in\<close>

text \<open>
  Claim C9 as stated says login and register cannot replace the identity of a signed-in
  user. With \<^verbatim>\<open>u1\<close> signed in, a login (or register) that the server answers with the
  account \<^verbatim>\<open>u2\<close> makes \<^verbatim>\<open>u2\<close> the user in that one step, and stores its token.
\<close>

theorem login_replaces_identity_counterexample:
  "user signed_in = Some \<lparr>uid = ''u1'', email = ''a@b.com''\<rparr>
   \<and> user (fst (login signed_in credentials (Fulfilled other_account)))
        = Some \<lparr>uid = ''u2'', email = ''c@d.com''\<rparr>
   \<and> user (fst (register signed_in credentials (Fulfilled other_account)))
        = Some \<lparr>uid = ''u2'', email = ''c@d.com''\<rparr>
   \<and> getItem (localStorage (fst (login signed_in credentials (Fulfilled other_account)))) ''accessToken''
        = Some ''t2''"
  by (simp add: login_user register_user login_storage)
    (simp add: signed_in_def mount_def example_user_def other_account_def)

text \<open>
  Claim C9, as amended. The store's login and register have no guard on the current
  user: on success the user and the stored token are those the server returned, whatever
  the session was. What keeps a signed-in user from switching accounts is the route
  guard: with the store initialized, the current-user query not loading and a user held,
  every location under \<^verbatim>\<open>/auth\<close>, the login and register screens among them, renders the
  redirect to \<^verbatim>\<open>/dashboard\<close>.
\<close>

theorem login_unguarded_route_guarded:
  "user (fst (login w c (Fulfilled d))) = Some (resp_user d)
   \<and> getItem (localStorage (fst (login w c (Fulfilled d)))) ''accessToken'' = Some (access_token d)
   \<and> user (fst (register w c (Fulfilled d))) = Some (resp_user d)
   \<and> getItem (localStorage (fst (register w c (Fulfilled d)))) ''accessToken'' = Some (access_token d)
   \<and> (isInitialized w \<longrightarrow> \<not> queryLoading \<longrightarrow> user w \<noteq> None \<longrightarrow>
        App (auth_value queryLoading w) (''auth'' # rest) = AppDiv (Navigate ''/dashboard'' True))"
  by (simp add: login_user login_storage register_user register_storage
      App_def PublicRoute_def auth_value_def)

text \<open>The signed-in session on \<^verbatim>\<open>/auth/login\<close> and \<^verbatim>\<open>/auth/register\<close>.\<close>

theorem login_unguarded_route_guarded_witness:
  "isInitialized signed_in \<and> user signed_in \<noteq> None
   \<and> App (auth_value False signed_in) [''auth'', ''login''] = AppDiv (Navigate ''/dashboard'' True)
   \<and> App (auth_value False signed_in) [''auth'', ''register''] = AppDiv (Navigate ''/dashboard'' True)
   \<and> user (fst (login signed_in credentials (Fulfilled other_account))) = Some (resp_user other_account)"
proof -
  have s: "isInitialized signed_in" "user signed_in \<noteq> None"
    by (simp_all add: signed_in_def mount_def)
  show ?thesis
    using s
      login_unguarded_route_guarded [of signed_in credentials other_account False "[''login'']"]
      login_unguarded_route_guarded [of signed_in credentials other_account False "[''register'']"]
    by simp
qed

section \<open>Request interceptor\<close>

text \<open>
  Claim C6. For every outgoing request: when a token is present in storage (the source's
  test \<^verbatim>\<open>if (token)\<close>: a stored, non-empty string) the interceptor sets the Authorization
  header to the bearer credential made from it and changes nothing else of the request;
  when no token is present the request is returned as it came, so a request that had no
  Authorization header has none afterwards.
\<close>

theorem request_interceptor_attaches_bearer:
  "(getItem st ''accessToken'' = Some token \<and> token \<noteq> [] \<longrightarrow>
      request_interceptor st cfg = cfg\<lparr>headers := (headers cfg)(''Authorization'' \<mapsto> ''Bearer '' @ token)\<rparr>
      \<and> headers (request_interceptor st cfg) ''Authorization'' = Some (''Bearer '' @ token)
      \<and> (\<forall>h. h \<noteq> ''Authorization'' \<longrightarrow> headers (request_interceptor st cfg) h = headers cfg h)
      \<and> req_method (request_interceptor st cfg) = req_method cfg
      \<and> url (request_interceptor st cfg) = url cfg
      \<and> data (request_interceptor st cfg) = data cfg
      \<and> retry (request_interceptor st cfg) = retry cfg)
   \<and> (\<not> truthy (getItem st ''accessToken'') \<longrightarrow>
      request_interceptor st cfg = cfg
      \<and> (headers cfg ''Authorization'' = None \<longrightarrow>
           headers (request_interceptor st cfg) ''Authorization'' = None))"
  by (auto simp: request_interceptor_def truthy_def split: option.splits)

theorem request_interceptor_attaches_bearer_witness:
  "request_interceptor [''accessToken'' \<mapsto> ''t1'']
       \<lparr>req_method = GET, url = ''/api/emails'', data = NoBody, headers = Map.empty, retry = False\<rparr>
     = \<lparr>req_method = GET, url = ''/api/emails'', data = NoBody,
        headers = [''Authorization'' \<mapsto> ''Bearer t1''], retry = False\<rparr>
   \<and> request_interceptor Map.empty
       \<lparr>req_method = GET, url = ''/api/emails'', data = NoBody, headers = Map.empty, retry = False\<rparr>
     = \<lparr>req_method = GET, url = ''/api/emails'', data = NoBody, headers = Map.empty, retry = False\<rparr>
   \<and> headers (request_interceptor Map.empty
       \<lparr>req_method = GET, url = ''/api/emails'', data = NoBody, headers = Map.empty, retry = False\<rparr>)
       ''Authorization'' = None"
  using request_interceptor_attaches_bearer
    [of "[''accessToken'' \<mapsto> ''t1'']" "''t1''"
        "\<lparr>req_method = GET, url = ''/api/emails'', data = NoBody, headers = Map.empty, retry = False\<rparr>"]
    request_interceptor_attaches_bearer
    [of Map.empty "''t1''"
        "\<lparr>req_method = GET, url = ''/api/emails'', data = NoBody, headers = Map.empty, retry = False\<rparr>"]
  by (simp add: getItem_def truthy_def)

end
